theory Spec2Isabelle
  imports Main
begin

section \<open>Data model of \<^verbatim>\<open>main.py\<close>\<close>

text \<open>
  A Python \<^verbatim>\<open>str\<close> is a sequence of Unicode code points. The only operation of the
  program that looks inside a string is \<^verbatim>\<open>str.strip()\<close>, so a string is modelled as the
  list of its code points; \<open>str\<close> turns a literal of the source into that form.
\<close>

type_synonym py_str = "nat list"

definition str :: "string \<Rightarrow> py_str" where
  "str s = map of_char s"

text \<open>
  The characters that \<^verbatim>\<open>str.strip()\<close> (called with no argument) removes: the code
  points for which Python's \<^verbatim>\<open>str.isspace\<close> holds.
\<close>

definition isspace :: "nat \<Rightarrow> bool" where
  "isspace c \<longleftrightarrow>
     (0x09 \<le> c \<and> c \<le> 0x0D) \<or> (0x1C \<le> c \<and> c \<le> 0x20) \<or> c = 0x85 \<or> c = 0xA0
     \<or> c = 0x1680 \<or> (0x2000 \<le> c \<and> c \<le> 0x200A) \<or> c = 0x2028 \<or> c = 0x2029
     \<or> c = 0x202F \<or> c = 0x205F \<or> c = 0x3000"

definition strip :: "py_str \<Rightarrow> py_str" where
  "strip s = rev (dropWhile isspace (rev (dropWhile isspace s)))"

text \<open>The pydantic models. \<^verbatim>\<open>ApiResponse\<close> inherits from \<^verbatim>\<open>Answer\<close>.\<close>

record Correction =
  wrong_word :: py_str
  correct_word :: py_str
  reason_of_error :: py_str

record Answer =
  corrections :: "Correction list"
  correct_sentence :: py_str

record ApiResponse = Answer +
  original_sentence :: py_str

datatype TextInput = TextInput py_str

datatype TextListInput = TextListInput "py_str list"

section \<open>Exceptions\<close>

text \<open>
  The exceptions that the library calls of the program (\<^verbatim>\<open>chat\<close>,
  \<^verbatim>\<open>Answer.model_validate_json\<close>) can raise, by the classes the handlers of the
  program tell apart. \<^verbatim>\<open>ResponseError\<close> carries \<^verbatim>\<open>status_code\<close> and
  \<^verbatim>\<open>error\<close>; the others carry what \<^verbatim>\<open>str(e)\<close> gives.
  \<^verbatim>\<open>json.JSONDecodeError\<close> is a subclass of \<^verbatim>\<open>ValueError\<close>, and \<open>ValueError\<close>
  stands for every other instance of that class (pydantic's validation error is one).
\<close>

datatype py_exception =
    ResponseError int py_str
  | JSONDecodeError py_str
  | ValueError py_str
  | OtherException py_str

fun is_ValueError :: "py_exception \<Rightarrow> bool" where
  "is_ValueError (JSONDecodeError m) = True"
| "is_ValueError (ValueError m) = True"
| "is_ValueError (ResponseError sc err) = False"
| "is_ValueError (OtherException m) = False"

fun exc_str :: "py_exception \<Rightarrow> py_str" where
  "exc_str (ResponseError sc err) = err"
| "exc_str (JSONDecodeError m) = m"
| "exc_str (ValueError m) = m"
| "exc_str (OtherException m) = m"

text \<open>
  What a function of the program can raise: FastAPI's \<^verbatim>\<open>HTTPException\<close> with its
  \<^verbatim>\<open>status_code\<close> and \<^verbatim>\<open>detail\<close>, or any other exception.
\<close>

datatype failure =
    HTTPException int py_str
  | Uncaught py_exception

section \<open>The upstream service\<close>

text \<open>
  The request that \<^verbatim>\<open>get_corrections\<close> passes to \<^verbatim>\<open>chat\<close>, and the envelope that
  \<^verbatim>\<open>chat\<close> returns: a response holds an optional \<^verbatim>\<open>message\<close>, a message an optional
  \<^verbatim>\<open>content\<close>.
\<close>

datatype schema = Answer_model_json_schema

record chat_message =
  role :: py_str
  msg_content :: py_str

record chat_request =
  messages :: "chat_message list"
  model_name :: py_str
  format :: schema
  temperature :: int

datatype message = Message "py_str option"

datatype chat_response = ChatResponse "message option"

datatype chat_outcome =
    Returns "chat_response option"
  | Raises py_exception

text \<open>
  The libraries are not part of the repository; they are parameters of the model.
  \<open>chat env i req\<close> is the outcome of the \<open>i\<close>-th call of \<^verbatim>\<open>chat\<close> (counted from 0)
  when it is made with request \<open>req\<close>: the upstream may answer every call differently.
  \<open>model_validate_json\<close> is \<^verbatim>\<open>Answer.model_validate_json\<close>, and \<open>response_str\<close>
  is the text that formatting a response into an f-string gives.
\<close>

record env =
  chat :: "nat \<Rightarrow> chat_request \<Rightarrow> chat_outcome"
  model_validate_json :: "py_str \<Rightarrow> py_exception + Answer"
  response_str :: "chat_response option \<Rightarrow> py_str"

text \<open>
  The state that the calls thread through: how many calls of \<^verbatim>\<open>chat\<close>, of
  \<^verbatim>\<open>get_corrections\<close> and of \<^verbatim>\<open>exception_wrapper\<close> have been made. Logging is the
  only other effect of the program and is left out.
\<close>

record world =
  chat_calls :: nat
  attempts :: nat
  wrapper_calls :: nat

definition after_attempts :: "nat \<Rightarrow> world \<Rightarrow> world" where
  "after_attempts n w = w\<lparr>chat_calls := chat_calls w + n, attempts := attempts w + n\<rparr>"

section \<open>\<^verbatim>\<open>get_corrections\<close>\<close>

definition prompt :: "py_str \<Rightarrow> py_str" where
  "prompt text =
     str ''Correct all the grammar and spelling errors in the following sentence. Try to give every answer. Respond ONLY with a JSON object matching the provided schema. Sentence: ''
     @ [0x22] @ text @ [0x22]"

definition chat_args :: "py_str \<Rightarrow> chat_request" where
  "chat_args text =
     \<lparr>messages = [\<lparr>role = str ''user'', msg_content = prompt text\<rparr>],
      model_name = str ''gemma3'',
      format = Answer_model_json_schema,
      temperature = 0\<rparr>"

text \<open>
  The test \<^verbatim>\<open>response and response.get("message") and response["message"].get("content")\<close>:
  the content when all three are truthy. An empty string is falsy.
\<close>

fun response_content :: "chat_response option \<Rightarrow> py_str option" where
  "response_content None = None"
| "response_content (Some (ChatResponse None)) = None"
| "response_content (Some (ChatResponse (Some (Message None)))) = None"
| "response_content (Some (ChatResponse (Some (Message (Some c))))) =
     (if c = [] then None else Some c)"

text \<open>The inner \<^verbatim>\<open>try\<close>: validate the content and build the final response.\<close>

definition parse_content :: "env \<Rightarrow> py_str \<Rightarrow> py_str \<Rightarrow> py_exception + ApiResponse" where
  "parse_content env text c =
     (case model_validate_json env c of
        Inr parsed_ollama_response \<Rightarrow>
          Inr \<lparr>corrections = corrections parsed_ollama_response,
               correct_sentence = correct_sentence parsed_ollama_response,
               original_sentence = text\<rparr>
      | Inl (JSONDecodeError m) \<Rightarrow>
          Inl (ValueError (str ''Ollama response was not valid JSON: '' @ c))
      | Inl _ \<Rightarrow>
          Inl (ValueError (str ''Ollama response did not match expected format: '' @ c)))"

text \<open>The body of the outer \<^verbatim>\<open>try\<close>, with \<open>i\<close> the number of earlier calls of \<^verbatim>\<open>chat\<close>.\<close>

definition try_body :: "env \<Rightarrow> py_str \<Rightarrow> nat \<Rightarrow> py_exception + ApiResponse" where
  "try_body env text i =
     (case chat env i (chat_args text) of
        Raises e \<Rightarrow> Inl e
      | Returns response \<Rightarrow>
          (case response_content response of
             Some c \<Rightarrow> parse_content env text c
           | None \<Rightarrow>
               Inl (ValueError (str ''Unexpected Ollama response structure: ''
                                @ response_str env response))))"

text \<open>The handlers of the outer \<^verbatim>\<open>try\<close>, in the order of the source.\<close>

fun classify :: "py_exception \<Rightarrow> failure" where
  "classify (ResponseError sc err) =
     HTTPException 503 (str ''Ollama service error: '' @ err)"
| "classify e =
     (if is_ValueError e
      then HTTPException 502 (str ''Bad response from correction service: '' @ exc_str e)
      else HTTPException 500 (str ''Internal server error during correction: '' @ exc_str e))"

definition get_corrections :: "env \<Rightarrow> py_str \<Rightarrow> world \<Rightarrow> (failure + ApiResponse) \<times> world" where
  "get_corrections env text w =
     ((case try_body env text (chat_calls w) of
         Inr final_response \<Rightarrow> Inr final_response
       | Inl e \<Rightarrow> Inl (classify e)),
      after_attempts 1 w)"

section \<open>\<^verbatim>\<open>exception_wrapper\<close>\<close>

definition no_specific_error :: failure where
  "no_specific_error =
     HTTPException 500 (str ''Correction failed after multiple retries without specific error.'')"

function exception_wrapper_loop ::
  "env \<Rightarrow> py_str \<Rightarrow> int \<Rightarrow> int \<Rightarrow> world \<Rightarrow> (failure + ApiResponse) \<times> world" where
  "exception_wrapper_loop env text max_retries retries w =
     (if retries < max_retries then
        (case get_corrections env text w of
           (Inr result, w') \<Rightarrow> (Inr result, w')
         | (Inl (HTTPException sc d), w') \<Rightarrow>
             (if sc = 503 \<or> sc = 504 then
                (if retries + 1 > max_retries then (Inl (HTTPException sc d), w')
                 else exception_wrapper_loop env text max_retries (retries + 1) w')
              else (Inl (HTTPException sc d), w'))
         | (Inl (Uncaught e), w') \<Rightarrow>
             (Inl (HTTPException 500 (str ''Unexpected internal server error: '' @ exc_str e)), w'))
      else (Inl no_specific_error, w))"
  by pat_completeness auto
termination
  by (relation "measure (\<lambda>(env, text, max_retries, retries, w). nat (max_retries - retries))") auto

declare exception_wrapper_loop.simps [simp del]

definition exception_wrapper :: "env \<Rightarrow> py_str \<Rightarrow> int \<Rightarrow> world \<Rightarrow> (failure + ApiResponse) \<times> world" where
  "exception_wrapper env text max_retries w =
     exception_wrapper_loop env text max_retries 0 (w\<lparr>wrapper_calls := wrapper_calls w + 1\<rparr>)"

section \<open>The endpoints\<close>

text \<open>\<^verbatim>\<open>exception_wrapper(text)\<close> is called with the default \<^verbatim>\<open>max_retries = 5\<close>.\<close>

definition correct_single_text :: "env \<Rightarrow> TextInput \<Rightarrow> world \<Rightarrow> (failure + ApiResponse) \<times> world" where
  "correct_single_text env input_data w =
     (case input_data of TextInput text \<Rightarrow>
        if strip text = [] then
          (Inl (HTTPException 400 (str ''Input text cannot be empty.'')), w)
        else
          (case exception_wrapper env text 5 w of
             (Inr result_dict, w') \<Rightarrow> (Inr result_dict, w')
           | (Inl (HTTPException sc d), w') \<Rightarrow> (Inl (HTTPException sc d), w')
           | (Inl (Uncaught e), w') \<Rightarrow>
               (Inl (HTTPException 500 (str ''An unexpected internal error occurred.'')), w')))"

text \<open>The body of the \<^verbatim>\<open>for\<close> loop of the batch endpoint: the entry appended for one text.\<close>

definition batch_item :: "env \<Rightarrow> py_str \<Rightarrow> world \<Rightarrow> ApiResponse \<times> world" where
  "batch_item env text w =
     (if strip text = [] then
        (\<lparr>corrections = [], correct_sentence = [], original_sentence = text\<rparr>, w)
      else
        (case exception_wrapper env text 5 w of
           (Inr result_dict, w') \<Rightarrow> (result_dict, w')
         | (Inl (HTTPException sc d), w') \<Rightarrow>
             (\<lparr>corrections = [], correct_sentence = str ''Error: '' @ d,
               original_sentence = text\<rparr>, w')
         | (Inl (Uncaught e), w') \<Rightarrow>
             (\<lparr>corrections = [],
               correct_sentence = str ''Error: Unexpected internal server error'',
               original_sentence = text\<rparr>, w')))"

fun batch_loop :: "env \<Rightarrow> py_str list \<Rightarrow> ApiResponse list \<Rightarrow> world \<Rightarrow> ApiResponse list \<times> world" where
  "batch_loop env [] results w = (results, w)"
| "batch_loop env (text # rest) results w =
     (case batch_item env text w of
        (r, w') \<Rightarrow> batch_loop env rest (results @ [r]) w')"

definition correct_batch_texts ::
  "env \<Rightarrow> TextListInput \<Rightarrow> world \<Rightarrow> (failure + ApiResponse list) \<times> world" where
  "correct_batch_texts env input_data w =
     (case input_data of TextListInput texts \<Rightarrow>
        if texts = [] then
          (Inl (HTTPException 400 (str ''Input text list cannot be empty.'')), w)
        else
          (case batch_loop env texts [] w of (results, w') \<Rightarrow> (Inr results, w')))"

section \<open>A simulated upstream\<close>

text \<open>
  Concrete environments on which the theorems below are evaluated: the upstream follows a
  script that gives the outcome of each call of \<^verbatim>\<open>chat\<close> by its number, and the validator
  accepts one payload.
\<close>

definition simulated_validate :: "py_str \<Rightarrow> py_exception + Answer" where
  "simulated_validate c =
     (if c = str ''{ok}'' then
        Inr \<lparr>corrections = [\<lparr>wrong_word = str ''has'', correct_word = str ''have'',
                               reason_of_error = str ''agreement''\<rparr>],
             correct_sentence = str ''I have an apple.''\<rparr>
      else if c \<noteq> [] \<and> hd c = 0x7B then Inl (ValueError (str ''validation error''))
      else Inl (JSONDecodeError (str ''Expecting value'')))"

definition simulated_upstream :: "(nat \<Rightarrow> chat_outcome) \<Rightarrow> env" where
  "simulated_upstream script =
     \<lparr>chat = (\<lambda>i req. script i),
      model_validate_json = simulated_validate,
      response_str = (\<lambda>r. str ''<response>'')\<rparr>"

definition reply :: "py_str \<Rightarrow> chat_outcome" where
  "reply c = Returns (Some (ChatResponse (Some (Message (Some c)))))"

definition unavailable :: chat_outcome where
  "unavailable = Raises (ResponseError 503 (str ''busy''))"

definition fails_then_succeeds :: "nat \<Rightarrow> nat \<Rightarrow> chat_outcome" where
  "fails_then_succeeds k i = (if i < k then unavailable else reply (str ''{ok}''))"

definition sentence :: py_str where
  "sentence = str ''I has a apple.''"

definition padded :: py_str where
  "padded = str ''  I has a apple. ''"

definition always :: "chat_outcome \<Rightarrow> nat \<Rightarrow> chat_outcome" where
  "always outcome i = outcome"

definition bad_then_good :: "nat \<Rightarrow> chat_outcome" where
  "bad_then_good i = (if i = 0 then reply (str ''not json'') else reply (str ''{ok}''))"

definition w0 :: world where
  "w0 = \<lparr>chat_calls = 0, attempts = 0, wrapper_calls = 0\<rparr>"

section \<open>Basic facts\<close>

lemma dropWhile_all_iff: "(\<forall>x\<in>set (dropWhile P s). P x) \<longleftrightarrow> (\<forall>x\<in>set s. P x)"
proof
  assume a: "\<forall>x\<in>set (dropWhile P s). P x"
  have "dropWhile P s = []"
  proof (rule ccontr)
    assume n: "dropWhile P s \<noteq> []"
    then have "\<not> P (hd (dropWhile P s))" by (rule hd_dropWhile)
    moreover have "hd (dropWhile P s) \<in> set (dropWhile P s)" using n by simp
    ultimately show False using a by blast
  qed
  then show "\<forall>x\<in>set s. P x" by simp
next
  assume "\<forall>x\<in>set s. P x"
  then show "\<forall>x\<in>set (dropWhile P s). P x" using set_dropWhileD by fast
qed

text \<open>\<^verbatim>\<open>not text.strip()\<close> holds exactly for the texts made of whitespace only.\<close>

lemma strip_empty_iff: "strip s = [] \<longleftrightarrow> (\<forall>c\<in>set s. isspace c)"
  by (simp add: strip_def dropWhile_all_iff)

lemma after_attempts_0: "after_attempts 0 w = w"
  by (simp add: after_attempts_def)

lemma after_attempts_add: "after_attempts m (after_attempts n w) = after_attempts (n + m) w"
  by (simp add: after_attempts_def add.assoc)

text \<open>One call of \<^verbatim>\<open>get_corrections\<close> is one attempt and one call of \<^verbatim>\<open>chat\<close>.\<close>

lemma get_corrections_world: "snd (get_corrections env text w) = after_attempts 1 w"
  by (simp add: get_corrections_def)

lemma get_corrections_wrapper_calls:
  "fst (get_corrections env text (w\<lparr>wrapper_calls := x\<rparr>)) = fst (get_corrections env text w)"
  by (simp add: get_corrections_def)

lemma after_attempts_wrapper_calls:
  "after_attempts n (w\<lparr>wrapper_calls := x\<rparr>) = (after_attempts n w)\<lparr>wrapper_calls := x\<rparr>"
  by (simp add: after_attempts_def)

section \<open>The single endpoint rejects blank input\<close>

text \<open>
  Claim C9. Called with the empty string as text, the single endpoint fails with status
  400 and the world is unchanged: no call of \<^verbatim>\<open>chat\<close>, of \<^verbatim>\<open>get_corrections\<close> or of
  \<^verbatim>\<open>exception_wrapper\<close> has been made.
\<close>

theorem correct_single_text_empty:
  "correct_single_text env (TextInput []) w =
     (Inl (HTTPException 400 (str ''Input text cannot be empty.'')), w)"
  by (simp add: correct_single_text_def strip_def)

text \<open>
  Claim C10. The same holds for every text that consists of whitespace characters only,
  since the test is made on the stripped text.
\<close>

theorem correct_single_text_whitespace:
  "\<forall>c\<in>set text. isspace c \<Longrightarrow>
     correct_single_text env (TextInput text) w =
       (Inl (HTTPException 400 (str ''Input text cannot be empty.'')), w)"
  by (simp add: correct_single_text_def strip_empty_iff)

theorem correct_single_text_whitespace_witness:
  "isspace 0x20 \<and> isspace 0x09 \<and> isspace 0x0A \<and> isspace 0x3000 \<and>
   correct_single_text (simulated_upstream (fails_then_succeeds 0))
       (TextInput [0x20, 0x09, 0x0A, 0x3000]) w0 =
     (Inl (HTTPException 400 (str ''Input text cannot be empty.'')), w0)"
  using correct_single_text_whitespace
    [of "[0x20, 0x09, 0x0A, 0x3000]" "simulated_upstream (fails_then_succeeds 0)" w0]
  by (simp add: isspace_def)

section \<open>A successful attempt\<close>

lemma classify_http: "\<exists>sc d. classify e = HTTPException sc d"
  by (cases e) auto

text \<open>Whatever goes wrong inside \<^verbatim>\<open>get_corrections\<close> leaves it as an \<^verbatim>\<open>HTTPException\<close>.\<close>

lemma get_corrections_failure_http:
  "get_corrections env text w = (Inl f, w') \<Longrightarrow> \<exists>sc d. f = HTTPException sc d"
  using classify_http by (auto simp: get_corrections_def split: sum.splits)

lemma get_corrections_success:
  "get_corrections env text w = (Inr r, w') \<Longrightarrow>
     original_sentence r = text \<and>
     (\<exists>response c parsed.
        chat env (chat_calls w) (chat_args text) = Returns response \<and>
        response_content response = Some c \<and>
        model_validate_json env c = Inr parsed \<and>
        corrections r = corrections parsed \<and>
        correct_sentence r = correct_sentence parsed)"
  by (auto simp: get_corrections_def try_body_def parse_content_def
           split: sum.splits chat_outcome.splits option.splits py_exception.splits)

text \<open>A result that the retry loop returns is the result of one of its attempts.\<close>

lemma loop_result_from_attempt:
  "exception_wrapper_loop env text m retries w = (Inr r, w') \<Longrightarrow>
     \<exists>w1. get_corrections env text w1 = (Inr r, w')"
proof (induction env "text" m retries w rule: exception_wrapper_loop.induct)
  case (1 env t m retries w)
  show ?case
  proof (cases "retries < m")
    case False
    with "1.prems" show ?thesis by (simp add: exception_wrapper_loop.simps)
  next
    case True
    obtain x w1 where gc: "get_corrections env t w = (x, w1)"
      by (cases "get_corrections env t w")
    show ?thesis
    proof (cases x)
      case (Inr a)
      with "1.prems" True gc show ?thesis by (auto simp add: exception_wrapper_loop.simps)
    next
      case (Inl f)
      show ?thesis
      proof (cases f)
        case (Uncaught e)
        with "1.prems" True gc Inl show ?thesis by (simp add: exception_wrapper_loop.simps)
      next
        case (HTTPException sc d)
        show ?thesis
        proof (cases "(sc = 503 \<or> sc = 504) \<and> \<not> retries + 1 > m")
          case False
          with "1.prems" True gc Inl HTTPException show ?thesis
            by (auto simp add: exception_wrapper_loop.simps split: if_splits)
        next
          case again: True
          then have "exception_wrapper_loop env t m (retries + 1) w1 = (Inr r, w')"
            using "1.prems" True gc Inl HTTPException
            by (auto simp add: exception_wrapper_loop.simps [of env t m retries w])
          moreover have "sc = 503 \<or> sc = 504" "\<not> m < retries + 1" using again by auto
          ultimately show ?thesis
            using "1.IH" [OF True gc [symmetric] Inl HTTPException] by blast
        qed
      qed
    qed
  qed
qed

lemma exception_wrapper_result_from_attempt:
  "exception_wrapper env text m w = (Inr r, w') \<Longrightarrow>
     \<exists>w1. get_corrections env text w1 = (Inr r, w')"
  using loop_result_from_attempt by (simp add: exception_wrapper_def)

text \<open>
  Claim C8. When the pipeline succeeds on a text (at the level of \<^verbatim>\<open>get_corrections\<close>,
  of the retry wrapper or of the single endpoint), the response carries the text itself as
  \<open>original_sentence\<close>, untrimmed, and its \<open>corrections\<close> and \<open>correct_sentence\<close> are
  those of the answer that validation produced from the content of an upstream reply.
\<close>

theorem pipeline_success_fields:
  assumes "get_corrections env text w = (Inr r, w') \<or>
           exception_wrapper env text max_retries w = (Inr r, w') \<or>
           correct_single_text env (TextInput text) w = (Inr r, w')"
  shows "original_sentence r = text \<and>
     (\<exists>i response c parsed.
        chat env i (chat_args text) = Returns response \<and>
        response_content response = Some c \<and>
        model_validate_json env c = Inr parsed \<and>
        corrections r = corrections parsed \<and>
        correct_sentence r = correct_sentence parsed)"
proof -
  have "\<exists>w1. get_corrections env text w1 = (Inr r, w')"
    using assms
  proof (elim disjE)
    assume "get_corrections env text w = (Inr r, w')"
    then show ?thesis by blast
  next
    assume "exception_wrapper env text max_retries w = (Inr r, w')"
    then show ?thesis by (rule exception_wrapper_result_from_attempt)
  next
    assume "correct_single_text env (TextInput text) w = (Inr r, w')"
    then have "exception_wrapper env text 5 w = (Inr r, w')"
      by (auto simp: correct_single_text_def split: if_splits prod.splits sum.splits failure.splits)
    then show ?thesis by (rule exception_wrapper_result_from_attempt)
  qed
  then obtain w1 where "get_corrections env text w1 = (Inr r, w')" ..
  from get_corrections_success [OF this] show ?thesis by blast
qed

theorem pipeline_success_fields_witness:
  "correct_single_text (simulated_upstream (fails_then_succeeds 0)) (TextInput padded) w0 =
     (Inr \<lparr>corrections = [\<lparr>wrong_word = str ''has'', correct_word = str ''have'',
                              reason_of_error = str ''agreement''\<rparr>],
            correct_sentence = str ''I have an apple.'',
            original_sentence = padded\<rparr>,
      \<lparr>chat_calls = 1, attempts = 1, wrapper_calls = 1\<rparr>) \<and>
   original_sentence
     (\<lparr>corrections = [\<lparr>wrong_word = str ''has'', correct_word = str ''have'',
                          reason_of_error = str ''agreement''\<rparr>],
        correct_sentence = str ''I have an apple.'',
        original_sentence = padded\<rparr>) = padded \<and>
   padded \<noteq> strip padded"
proof -
  have run: "correct_single_text (simulated_upstream (fails_then_succeeds 0)) (TextInput padded) w0 =
     (Inr \<lparr>corrections = [\<lparr>wrong_word = str ''has'', correct_word = str ''have'',
                              reason_of_error = str ''agreement''\<rparr>],
            correct_sentence = str ''I have an apple.'',
            original_sentence = padded\<rparr>,
      \<lparr>chat_calls = 1, attempts = 1, wrapper_calls = 1\<rparr>)"
    by (simp add: correct_single_text_def exception_wrapper_def exception_wrapper_loop.simps
        get_corrections_def try_body_def parse_content_def simulated_upstream_def
        simulated_validate_def fails_then_succeeds_def reply_def w0_def after_attempts_def
        strip_def isspace_def padded_def str_def)
  have "padded \<noteq> strip padded"
    by (simp add: strip_def isspace_def padded_def str_def)
  with run pipeline_success_fields [OF disjI2 [OF disjI2 [OF run]]] show ?thesis
    by simp
qed

section \<open>The retry loop\<close>

text \<open>What one turn of the \<^verbatim>\<open>while\<close> loop does, by the outcome of its attempt.\<close>

lemma loop_budget_spent:
  "\<not> retries < max_retries \<Longrightarrow>
     exception_wrapper_loop env text max_retries retries w = (Inl no_specific_error, w)"
  by (simp add: exception_wrapper_loop.simps)

lemma loop_success:
  "retries < max_retries \<Longrightarrow> fst (get_corrections env text w) = Inr r \<Longrightarrow>
     exception_wrapper_loop env text max_retries retries w = (Inr r, after_attempts 1 w)"
  using get_corrections_world [of env "text" w]
  by (cases "get_corrections env text w") (simp add: exception_wrapper_loop.simps)

lemma loop_terminal:
  "retries < max_retries \<Longrightarrow> fst (get_corrections env text w) = Inl (HTTPException sc d) \<Longrightarrow>
   sc \<noteq> 503 \<Longrightarrow> sc \<noteq> 504 \<Longrightarrow>
     exception_wrapper_loop env text max_retries retries w =
       (Inl (HTTPException sc d), after_attempts 1 w)"
  using get_corrections_world [of env "text" w]
  by (cases "get_corrections env text w") (simp add: exception_wrapper_loop.simps)

lemma loop_retry:
  "retries < max_retries \<Longrightarrow> fst (get_corrections env text w) = Inl (HTTPException sc d) \<Longrightarrow>
   sc = 503 \<or> sc = 504 \<Longrightarrow>
     exception_wrapper_loop env text max_retries retries w =
       exception_wrapper_loop env text max_retries (retries + 1) (after_attempts 1 w)"
  using get_corrections_world [of env "text" w]
  by (cases "get_corrections env text w") (auto simp add: exception_wrapper_loop.simps)

text \<open>
  After \<open>n\<close> attempts that failed with status 503 the loop stands at \<open>retries + n\<close>,
  as long as that does not exceed \<open>max_retries\<close>.
\<close>

lemma loop_retry_n:
  "(\<forall>i<n. \<exists>d. fst (get_corrections env text (after_attempts i w)) = Inl (HTTPException 503 d)) \<Longrightarrow>
   retries + int n \<le> max_retries \<Longrightarrow>
     exception_wrapper_loop env text max_retries retries w =
       exception_wrapper_loop env text max_retries (retries + int n) (after_attempts n w)"
proof (induction n arbitrary: retries w)
  case 0
  then show ?case by (simp add: after_attempts_0)
next
  case (Suc n)
  from Suc.prems(1) obtain d where
    first: "fst (get_corrections env text w) = Inl (HTTPException 503 d)"
    using after_attempts_0 [of w] by (metis zero_less_Suc)
  have lt: "retries < max_retries" using Suc.prems(2) by simp
  have rest: "\<forall>i<n. \<exists>d.
       fst (get_corrections env text (after_attempts i (after_attempts 1 w))) =
         Inl (HTTPException 503 d)"
    using Suc.prems(1) by (simp add: after_attempts_add)
  have "exception_wrapper_loop env text max_retries retries w =
          exception_wrapper_loop env text max_retries (retries + 1) (after_attempts 1 w)"
    using lt first by (rule loop_retry) simp
  also have "\<dots> = exception_wrapper_loop env text max_retries (retries + 1 + int n)
                     (after_attempts n (after_attempts 1 w))"
    using rest Suc.prems(2) by (intro Suc.IH) simp_all
  finally show ?case by (simp add: after_attempts_add ac_simps)
qed

lemma attempt_in_wrapper:
  "fst (get_corrections env text (after_attempts i (w\<lparr>wrapper_calls := x\<rparr>))) =
   fst (get_corrections env text (after_attempts i w))"
  by (simp add: after_attempts_wrapper_calls get_corrections_wrapper_calls)

text \<open>
  With fewer than \<open>max_retries\<close> failures of status 503 before the first success, the
  wrapper returns that success, after \<open>k + 1\<close> attempts.
\<close>

lemma exception_wrapper_retries_then_succeeds:
  assumes fails: "\<forall>i<k. \<exists>d. fst (get_corrections env text (after_attempts i w)) =
                              Inl (HTTPException 503 d)"
    and ok: "fst (get_corrections env text (after_attempts k w)) = Inr r"
    and k: "int k < max_retries"
  shows "exception_wrapper env text max_retries w =
           (Inr r, after_attempts (k + 1) (w\<lparr>wrapper_calls := wrapper_calls w + 1\<rparr>))"
proof -
  let ?w = "w\<lparr>wrapper_calls := wrapper_calls w + 1\<rparr>"
  have "exception_wrapper_loop env text max_retries 0 ?w =
        exception_wrapper_loop env text max_retries (0 + int k) (after_attempts k ?w)"
    using fails k by (intro loop_retry_n) (simp_all add: attempt_in_wrapper)
  also have "\<dots> = (Inr r, after_attempts 1 (after_attempts k ?w))"
    using k ok by (intro loop_success) (simp_all add: attempt_in_wrapper)
  finally show ?thesis by (simp add: exception_wrapper_def after_attempts_add)
qed

text \<open>
  With \<open>max_retries\<close> failures of status 503 in a row, the loop condition
  \<^verbatim>\<open>retries < max_retries\<close> ends the loop: the test \<^verbatim>\<open>retries > max_retries\<close> inside it
  has never held, no further attempt is made, and the statement after the loop raises.
\<close>

lemma exception_wrapper_budget_spent:
  assumes fails: "\<forall>i<n. \<exists>d. fst (get_corrections env text (after_attempts i w)) =
                              Inl (HTTPException 503 d)"
  shows "exception_wrapper env text (int n) w =
           (Inl no_specific_error, after_attempts n (w\<lparr>wrapper_calls := wrapper_calls w + 1\<rparr>))"
proof -
  let ?w = "w\<lparr>wrapper_calls := wrapper_calls w + 1\<rparr>"
  have "exception_wrapper_loop env text (int n) 0 ?w =
        exception_wrapper_loop env text (int n) (0 + int n) (after_attempts n ?w)"
    using fails by (intro loop_retry_n) (simp_all add: attempt_in_wrapper)
  also have "\<dots> = (Inl no_specific_error, after_attempts n ?w)"
    by (intro loop_budget_spent) simp
  finally show ?thesis by (simp add: exception_wrapper_def)
qed

text \<open>The simulated upstream: unavailable for the first \<open>k\<close> calls, then a valid reply.\<close>

lemma simulated_unavailable:
  "i < k \<Longrightarrow>
     fst (get_corrections (simulated_upstream (fails_then_succeeds k)) text (after_attempts i w0)) =
       Inl (HTTPException 503 (str ''Ollama service error: '' @ str ''busy''))"
  by (simp add: get_corrections_def try_body_def simulated_upstream_def fails_then_succeeds_def
       unavailable_def after_attempts_def w0_def)

lemma simulated_success:
  "fst (get_corrections (simulated_upstream (fails_then_succeeds k)) text (after_attempts k w0)) =
     Inr \<lparr>corrections = [\<lparr>wrong_word = str ''has'', correct_word = str ''have'',
                             reason_of_error = str ''agreement''\<rparr>],
          correct_sentence = str ''I have an apple.'', original_sentence = text\<rparr>"
  by (simp add: get_corrections_def try_body_def simulated_upstream_def fails_then_succeeds_def
       reply_def parse_content_def simulated_validate_def after_attempts_def w0_def str_def)

lemma simulated_always_unavailable:
  "fst (get_corrections (simulated_upstream (always unavailable)) text w) =
     Inl (HTTPException 503 (str ''Ollama service error: '' @ str ''busy''))"
  by (simp add: get_corrections_def try_body_def simulated_upstream_def always_def
       unavailable_def)

text \<open>
  Claim C1, at \<open>k = max_retries\<close>. When the first \<open>max_retries\<close> attempts fail with
  status 503 and the next one would succeed, the wrapper does not return that success:
  it stops after \<open>max_retries\<close> attempts and raises status 500 with the text of the
  statement after the loop.
\<close>

theorem exception_wrapper_misses_last_attempt:
  assumes "\<forall>i<n. \<exists>d. fst (get_corrections env text (after_attempts i w)) =
                       Inl (HTTPException 503 d)"
    and "fst (get_corrections env text (after_attempts n w)) = Inr r"
  shows "exception_wrapper env text (int n) w =
           (Inl (HTTPException 500
                  (str ''Correction failed after multiple retries without specific error.'')),
            after_attempts n (w\<lparr>wrapper_calls := wrapper_calls w + 1\<rparr>))"
  using exception_wrapper_budget_spent [OF assms(1)] by (simp add: no_specific_error_def)

theorem exception_wrapper_misses_last_attempt_witness:
  "fst (get_corrections (simulated_upstream (fails_then_succeeds 5)) sentence
          (after_attempts 5 w0)) =
     Inr \<lparr>corrections = [\<lparr>wrong_word = str ''has'', correct_word = str ''have'',
                             reason_of_error = str ''agreement''\<rparr>],
          correct_sentence = str ''I have an apple.'', original_sentence = sentence\<rparr> \<and>
   exception_wrapper (simulated_upstream (fails_then_succeeds 5)) sentence 5 w0 =
     (Inl (HTTPException 500
            (str ''Correction failed after multiple retries without specific error.'')),
      \<lparr>chat_calls = 5, attempts = 5, wrapper_calls = 1\<rparr>)"
proof -
  have fails: "\<forall>i<5. \<exists>d.
      fst (get_corrections (simulated_upstream (fails_then_succeeds 5)) sentence
             (after_attempts i w0)) = Inl (HTTPException 503 d)"
    by (simp add: simulated_unavailable)
  note ok = simulated_success [of 5 sentence]
  from exception_wrapper_misses_last_attempt [OF fails ok] ok show ?thesis
    by (simp add: after_attempts_def w0_def)
qed

text \<open>
  Claim C2. When every attempt fails with status 503, the wrapper makes \<open>max_retries\<close>
  attempts, not \<open>max_retries + 1\<close>, and what it raises is not the last failure: it is
  status 500 with the text of the statement after the loop.
\<close>

theorem exception_wrapper_exhausted:
  assumes "\<forall>i. \<exists>d. fst (get_corrections env text (after_attempts i w)) =
                     Inl (HTTPException 503 d)"
  shows "exception_wrapper env text (int n) w =
           (Inl (HTTPException 500
                  (str ''Correction failed after multiple retries without specific error.'')),
            after_attempts n (w\<lparr>wrapper_calls := wrapper_calls w + 1\<rparr>))"
  using exception_wrapper_budget_spent [of n env "text" w] assms
  by (simp add: no_specific_error_def)

theorem exception_wrapper_exhausted_witness:
  "exception_wrapper (simulated_upstream (always unavailable)) sentence 5 w0 =
     (Inl (HTTPException 500
            (str ''Correction failed after multiple retries without specific error.'')),
      \<lparr>chat_calls = 5, attempts = 5, wrapper_calls = 1\<rparr>)"
proof -
  have fails: "\<forall>i. \<exists>d.
      fst (get_corrections (simulated_upstream (always unavailable)) sentence
             (after_attempts i w0)) = Inl (HTTPException 503 d)"
    by (simp add: simulated_always_unavailable)
  from exception_wrapper_exhausted [OF fails, of 5] show ?thesis
    by (simp add: after_attempts_def w0_def)
qed

text \<open>
  Claim C3. When the first attempt fails with a status other than 503 and 504 (502 for bad
  upstream data, 500 for any other exception inside \<^verbatim>\<open>get_corrections\<close>, which lets
  nothing but an \<^verbatim>\<open>HTTPException\<close> out), the wrapper raises that very failure after this
  one attempt.
\<close>

theorem exception_wrapper_non_retryable:
  assumes "0 < max_retries"
    and "fst (get_corrections env text w) = Inl (HTTPException sc d)"
    and "sc \<noteq> 503" and "sc \<noteq> 504"
  shows "exception_wrapper env text max_retries w =
           (Inl (HTTPException sc d),
            after_attempts 1 (w\<lparr>wrapper_calls := wrapper_calls w + 1\<rparr>))"
proof -
  have "fst (get_corrections env text (w\<lparr>wrapper_calls := wrapper_calls w + 1\<rparr>)) =
          Inl (HTTPException sc d)"
    using assms(2) by (simp add: get_corrections_wrapper_calls)
  with assms(1) show ?thesis
    unfolding exception_wrapper_def using assms(3,4) by (rule loop_terminal)
qed

theorem exception_wrapper_non_retryable_witness:
  "exception_wrapper (simulated_upstream (always (reply (str ''not json'')))) sentence 5 w0 =
     (Inl (HTTPException 502
            (str ''Bad response from correction service: ''
             @ str ''Ollama response was not valid JSON: '' @ str ''not json'')),
      \<lparr>chat_calls = 1, attempts = 1, wrapper_calls = 1\<rparr>) \<and>
   exception_wrapper (simulated_upstream (always (Raises (OtherException (str ''boom'')))))
       sentence 5 w0 =
     (Inl (HTTPException 500 (str ''Internal server error during correction: '' @ str ''boom'')),
      \<lparr>chat_calls = 1, attempts = 1, wrapper_calls = 1\<rparr>)"
proof -
  have bad: "fst (get_corrections (simulated_upstream (always (reply (str ''not json''))))
                    sentence w0) =
      Inl (HTTPException 502
            (str ''Bad response from correction service: ''
             @ str ''Ollama response was not valid JSON: '' @ str ''not json''))"
    by (simp add: get_corrections_def try_body_def parse_content_def simulated_upstream_def
         simulated_validate_def always_def reply_def str_def)
  have boom: "fst (get_corrections
                     (simulated_upstream (always (Raises (OtherException (str ''boom'')))))
                     sentence w0) =
      Inl (HTTPException 500 (str ''Internal server error during correction: '' @ str ''boom''))"
    by (simp add: get_corrections_def try_body_def simulated_upstream_def always_def)
  have five: "(0::int) < 5" by simp
  from exception_wrapper_non_retryable [OF five bad] exception_wrapper_non_retryable [OF five boom]
  show ?thesis
    by (simp add: after_attempts_def w0_def)
qed

section \<open>How \<^verbatim>\<open>get_corrections\<close> classifies failures\<close>

lemma classify_503: "(\<exists>d. classify e = HTTPException 503 d) \<longleftrightarrow> (\<exists>sc err. e = ResponseError sc err)"
  by (cases e) auto

lemma classify_502: "(\<exists>d. classify e = HTTPException 502 d) \<longleftrightarrow> is_ValueError e"
  by (cases e) auto

lemma classify_500: "(\<exists>d. classify e = HTTPException 500 d) \<longleftrightarrow> (\<exists>m. e = OtherException m)"
  by (cases e) auto

lemma classify_codes: "\<exists>sc d. classify e = HTTPException sc d \<and> (sc = 503 \<or> sc = 502 \<or> sc = 500)"
  by (cases e) auto

lemma parse_content_failure:
  "parse_content env text c = Inl e \<Longrightarrow>
     is_ValueError e \<and> (\<exists>e'. model_validate_json env c = Inl e')"
  by (auto simp: parse_content_def split: sum.splits py_exception.splits)

text \<open>
  What the handlers of \<^verbatim>\<open>get_corrections\<close> do with a failed attempt. It leaves as an
  \<^verbatim>\<open>HTTPException\<close> with status 503, 502 or 500. The status is 503 exactly when \<^verbatim>\<open>chat\<close>
  raised \<^verbatim>\<open>ResponseError\<close>. It is 502 exactly when \<^verbatim>\<open>chat\<close> returned and the envelope
  has no (non-empty) content or validation of the content failed, or when \<^verbatim>\<open>chat\<close>
  itself raised an instance of \<^verbatim>\<open>ValueError\<close>. It is 500 exactly when \<^verbatim>\<open>chat\<close> raised
  an exception that is neither a \<^verbatim>\<open>ResponseError\<close> nor a \<^verbatim>\<open>ValueError\<close>.
\<close>

lemma get_corrections_classification:
  assumes "fst (get_corrections env text w) = Inl f"
  shows "(\<exists>sc d. f = HTTPException sc d \<and> (sc = 503 \<or> sc = 502 \<or> sc = 500)) \<and>
     ((\<exists>d. f = HTTPException 503 d) \<longleftrightarrow>
        (\<exists>sc err. chat env (chat_calls w) (chat_args text) = Raises (ResponseError sc err))) \<and>
     ((\<exists>d. f = HTTPException 502 d) \<longleftrightarrow>
        (\<exists>e. chat env (chat_calls w) (chat_args text) = Raises e \<and> is_ValueError e) \<or>
        (\<exists>response. chat env (chat_calls w) (chat_args text) = Returns response \<and>
           (response_content response = None \<or>
            (\<exists>c e. response_content response = Some c \<and> model_validate_json env c = Inl e)))) \<and>
     ((\<exists>d. f = HTTPException 500 d) \<longleftrightarrow>
        (\<exists>m. chat env (chat_calls w) (chat_args text) = Raises (OtherException m)))"
proof -
  from assms obtain e where tb: "try_body env text (chat_calls w) = Inl e" and f: "f = classify e"
    by (auto simp: get_corrections_def split: sum.splits)
  show ?thesis
  proof (cases "chat env (chat_calls w) (chat_args text)")
    case (Raises x)
    with tb have "e = x" by (simp add: try_body_def)
    with Raises f classify_codes [of x] classify_503 [of x] classify_502 [of x] classify_500 [of x]
    show ?thesis by simp
  next
    case (Returns response)
    have v: "is_ValueError e"
      using tb Returns parse_content_failure
      by (auto simp: try_body_def split: option.splits)
    have bad: "response_content response = None \<or>
            (\<exists>c e. response_content response = Some c \<and> model_validate_json env c = Inl e)"
      using tb Returns parse_content_failure
      by (auto simp: try_body_def split: option.splits)
    from v obtain d where "f = HTTPException 502 d"
      using f by (cases e) auto
    with Returns bad show ?thesis by auto
  qed
qed

text \<open>
  Claim C7. The handler for bad upstream data tests only the class of the exception.
  When the call of \<^verbatim>\<open>chat\<close> itself raises a \<^verbatim>\<open>ValueError\<close>, before any response exists,
  \<^verbatim>\<open>get_corrections\<close> surfaces status 502 with the text for a bad response from the
  correction service. The claim, the comments of the handler and the docstring keep 502
  for a response that could not be parsed or validated, and give 500 to any other
  exception.
\<close>

theorem get_corrections_chat_ValueError_is_502:
  assumes "chat env (chat_calls w) (chat_args text) = Raises (ValueError m)"
  shows "get_corrections env text w =
           (Inl (HTTPException 502 (str ''Bad response from correction service: '' @ m)),
            after_attempts 1 w)"
  using assms by (simp add: get_corrections_def try_body_def)

theorem get_corrections_chat_ValueError_is_502_witness:
  "get_corrections (simulated_upstream (always (Raises (ValueError (str ''invalid request'')))))
       sentence w0 =
     (Inl (HTTPException 502
            (str ''Bad response from correction service: '' @ str ''invalid request'')),
      \<lparr>chat_calls = 1, attempts = 1, wrapper_calls = 0\<rparr>)"
proof -
  have raised: "chat (simulated_upstream (always (Raises (ValueError (str ''invalid request'')))))
                  (chat_calls w0) (chat_args sentence) =
                Raises (ValueError (str ''invalid request''))"
    by (simp add: simulated_upstream_def always_def)
  from get_corrections_chat_ValueError_is_502 [OF raised] show ?thesis
    by (simp add: after_attempts_def w0_def)
qed

section \<open>The batch endpoint\<close>

text \<open>The retry wrapper raises nothing but an \<^verbatim>\<open>HTTPException\<close>.\<close>

lemma loop_failure_http:
  "exception_wrapper_loop env text m retries w = (Inl f, w') \<Longrightarrow> \<exists>sc d. f = HTTPException sc d"
proof (induction env "text" m retries w rule: exception_wrapper_loop.induct)
  case (1 env t m retries w)
  show ?case
  proof (cases "retries < m")
    case False
    with "1.prems" show ?thesis
      by (auto simp add: exception_wrapper_loop.simps no_specific_error_def)
  next
    case True
    obtain x w1 where gc: "get_corrections env t w = (x, w1)"
      by (cases "get_corrections env t w")
    show ?thesis
    proof (cases x)
      case (Inr a)
      with "1.prems" True gc show ?thesis by (auto simp add: exception_wrapper_loop.simps)
    next
      case (Inl g)
      show ?thesis
      proof (cases g)
        case (Uncaught e)
        with "1.prems" True gc Inl show ?thesis by (auto simp add: exception_wrapper_loop.simps)
      next
        case (HTTPException sc d)
        show ?thesis
        proof (cases "(sc = 503 \<or> sc = 504) \<and> \<not> retries + 1 > m")
          case False
          with "1.prems" True gc Inl HTTPException show ?thesis
            by (auto simp add: exception_wrapper_loop.simps split: if_splits)
        next
          case again: True
          then have "exception_wrapper_loop env t m (retries + 1) w1 = (Inl f, w')"
            using "1.prems" True gc Inl HTTPException
            by (auto simp add: exception_wrapper_loop.simps [of env t m retries w])
          moreover have "sc = 503 \<or> sc = 504" "\<not> m < retries + 1" using again by auto
          ultimately show ?thesis
            using "1.IH" [OF True gc [symmetric] Inl HTTPException] by blast
        qed
      qed
    qed
  qed
qed

lemma exception_wrapper_failure_http:
  "exception_wrapper env text m w = (Inl f, w') \<Longrightarrow> \<exists>sc d. f = HTTPException sc d"
  using loop_failure_http by (simp add: exception_wrapper_def)

lemma exception_wrapper_original:
  "exception_wrapper env text m w = (Inr r, w') \<Longrightarrow> original_sentence r = text"
  using exception_wrapper_result_from_attempt get_corrections_success by blast

lemma batch_item_original: "original_sentence (fst (batch_item env text w)) = text"
proof (cases "strip text = []")
  case True
  then show ?thesis by (simp add: batch_item_def)
next
  case False
  obtain x w1 where ew: "exception_wrapper env text 5 w = (x, w1)"
    by (cases "exception_wrapper env text 5 w")
  show ?thesis
  proof (cases x)
    case (Inr r)
    with ew False exception_wrapper_original [of env "text" 5 w r w1] show ?thesis
      by (simp add: batch_item_def)
  next
    case (Inl f)
    with ew False show ?thesis by (cases f) (simp_all add: batch_item_def)
  qed
qed

lemma batch_loop_acc:
  "batch_loop env xs acc w = (acc @ fst (batch_loop env xs [] w), snd (batch_loop env xs [] w))"
proof (induction xs arbitrary: acc w)
  case Nil
  show ?case by simp
next
  case (Cons x xs)
  obtain r w1 where bi: "batch_item env x w = (r, w1)" by (cases "batch_item env x w")
  show ?case
    using Cons.IH [of "acc @ [r]" w1] Cons.IH [of "[r]" w1] bi by simp
qed

lemma batch_loop_Cons:
  "batch_loop env (x # xs) [] w =
     (fst (batch_item env x w) # fst (batch_loop env xs [] (snd (batch_item env x w))),
      snd (batch_loop env xs [] (snd (batch_item env x w))))"
  using batch_loop_acc [of env xs "[fst (batch_item env x w)]" "snd (batch_item env x w)"]
  by (simp add: split_beta)

lemma batch_loop_append:
  "batch_loop env (xs @ ys) [] w =
     (fst (batch_loop env xs [] w) @ fst (batch_loop env ys [] (snd (batch_loop env xs [] w))),
      snd (batch_loop env ys [] (snd (batch_loop env xs [] w))))"
proof (induction xs arbitrary: w)
  case Nil
  show ?case by simp
next
  case (Cons x xs)
  show ?case
    by (simp only: append_Cons batch_loop_Cons Cons.IH fst_conv snd_conv)
qed

lemma batch_loop_originals: "map original_sentence (fst (batch_loop env xs [] w)) = xs"
proof (induction xs arbitrary: w)
  case Nil
  show ?case by simp
next
  case (Cons x xs)
  show ?case by (simp only: batch_loop_Cons fst_conv list.map Cons.IH batch_item_original)
qed

lemma batch_loop_length: "length (fst (batch_loop env xs [] w)) = length xs"
  using batch_loop_originals [of env xs w] by (metis length_map)

lemma correct_batch_texts_split:
  "correct_batch_texts env (TextListInput (pre @ text # post)) w =
     (Inr (fst (batch_loop env pre [] w)
           @ fst (batch_item env text (snd (batch_loop env pre [] w)))
           # fst (batch_loop env post []
                    (snd (batch_item env text (snd (batch_loop env pre [] w)))))),
      snd (batch_loop env post [] (snd (batch_item env text (snd (batch_loop env pre [] w))))))"
  by (simp add: correct_batch_texts_def split_beta batch_loop_append batch_loop_Cons
        del: batch_loop.simps)

lemmas simulation_defs =
  correct_batch_texts_def batch_item_def exception_wrapper_def exception_wrapper_loop.simps
  get_corrections_def try_body_def parse_content_def simulated_upstream_def
  simulated_validate_def fails_then_succeeds_def reply_def w0_def after_attempts_def
  strip_def isspace_def sentence_def str_def bad_then_good_def

text \<open>
  Claim C4, as the code has it. For every batch input that is not the empty list, the
  batch endpoint returns a list of results as long as the input, and the result at each
  index carries the input string at that index as \<open>original_sentence\<close>, whether the item
  was blank, failed or succeeded.
\<close>

theorem correct_batch_texts_originals:
  assumes "texts \<noteq> []"
  shows "\<exists>rs w'. correct_batch_texts env (TextListInput texts) w = (Inr rs, w') \<and>
           length rs = length texts \<and>
           (\<forall>i<length texts. original_sentence (rs ! i) = texts ! i)"
proof -
  let ?rs = "fst (batch_loop env texts [] w)"
  have run: "correct_batch_texts env (TextListInput texts) w =
          (Inr ?rs, snd (batch_loop env texts [] w))"
    using assms by (simp add: correct_batch_texts_def split_beta)
  have len: "length ?rs = length texts" by (rule batch_loop_length)
  have "\<forall>i<length texts. original_sentence (?rs ! i) = texts ! i"
  proof (intro allI impI)
    fix i assume "i < length texts"
    then have "map original_sentence ?rs ! i = original_sentence (?rs ! i)"
      using len by simp
    then show "original_sentence (?rs ! i) = texts ! i"
      by (simp add: batch_loop_originals)
  qed
  with run len show ?thesis by blast
qed

theorem correct_batch_texts_originals_witness:
  "correct_batch_texts (simulated_upstream (fails_then_succeeds 0))
       (TextListInput [[], sentence]) w0 =
     (Inr [\<lparr>corrections = [], correct_sentence = [], original_sentence = []\<rparr>,
           \<lparr>corrections = [\<lparr>wrong_word = str ''has'', correct_word = str ''have'',
                              reason_of_error = str ''agreement''\<rparr>],
            correct_sentence = str ''I have an apple.'',
            original_sentence = sentence\<rparr>],
      \<lparr>chat_calls = 1, attempts = 1, wrapper_calls = 1\<rparr>) \<and>
   (\<exists>rs w'. correct_batch_texts (simulated_upstream (fails_then_succeeds 0))
       (TextListInput [[], sentence]) w0 = (Inr rs, w') \<and> length rs = 2 \<and>
       original_sentence (rs ! 0) = [] \<and> original_sentence (rs ! 1) = sentence)"
proof -
  have run: "correct_batch_texts (simulated_upstream (fails_then_succeeds 0))
       (TextListInput [[], sentence]) w0 =
     (Inr [\<lparr>corrections = [], correct_sentence = [], original_sentence = []\<rparr>,
           \<lparr>corrections = [\<lparr>wrong_word = str ''has'', correct_word = str ''have'',
                              reason_of_error = str ''agreement''\<rparr>],
            correct_sentence = str ''I have an apple.'',
            original_sentence = sentence\<rparr>],
      \<lparr>chat_calls = 1, attempts = 1, wrapper_calls = 1\<rparr>)"
    by (simp add: simulation_defs)
  have ne: "[[], sentence] \<noteq> []" by simp
  from correct_batch_texts_originals [OF ne, of "simulated_upstream (fails_then_succeeds 0)" w0]
  obtain rs w' where r: "correct_batch_texts (simulated_upstream (fails_then_succeeds 0))
       (TextListInput [[], sentence]) w0 = (Inr rs, w')" "length rs = 2"
     "\<forall>i<2. original_sentence (rs ! i) = [[], sentence] ! i"
    by auto
  then have "original_sentence (rs ! 0) = []" "original_sentence (rs ! 1) = sentence"
    by force+
  with r run show ?thesis by blast
qed

text \<open>
  Claim C4, as stated, fails at the empty list: the endpoint returns no result list but
  raises status 400.
\<close>

theorem correct_batch_texts_empty:
  "correct_batch_texts (simulated_upstream (fails_then_succeeds 0)) (TextListInput []) w0 =
     (Inl (HTTPException 400 (str ''Input text list cannot be empty.'')), w0)"
  by (simp add: correct_batch_texts_def)

text \<open>
  Claim C5. When the retry wrapper fails on a non-blank item at position \<open>length pre\<close>,
  the failure is an \<^verbatim>\<open>HTTPException\<close>, and the batch endpoint still returns a result
  list of full length: the results of the earlier items are unchanged, the result at
  that position has no corrections and \<open>correct_sentence\<close> equal to \<^verbatim>\<open>Error: \<close> followed by
  the detail of the failure, and the later items are processed from the world the failed
  call left.
\<close>

theorem batch_failure_isolated:
  assumes "strip text \<noteq> []"
    and "exception_wrapper env text 5 (snd (batch_loop env pre [] w)) = (Inl f, w2)"
  shows "\<exists>sc d rs w'. f = HTTPException sc d \<and>
           correct_batch_texts env (TextListInput (pre @ text # post)) w = (Inr rs, w') \<and>
           length rs = length (pre @ text # post) \<and>
           rs ! length pre =
             \<lparr>corrections = [], correct_sentence = str ''Error: '' @ d,
              original_sentence = text\<rparr> \<and>
           take (length pre) rs = fst (batch_loop env pre [] w) \<and>
           drop (Suc (length pre)) rs = fst (batch_loop env post [] w2) \<and>
           w' = snd (batch_loop env post [] w2)"
proof -
  from exception_wrapper_failure_http [OF assms(2)] obtain sc d
    where f: "f = HTTPException sc d" by blast
  let ?w1 = "snd (batch_loop env pre [] w)"
  let ?e = "\<lparr>corrections = [], correct_sentence = str ''Error: '' @ d,
              original_sentence = text\<rparr>"
  have item: "batch_item env text ?w1 = (?e, w2)"
    using assms f by (simp add: batch_item_def)
  let ?rs = "fst (batch_loop env pre [] w) @ ?e # fst (batch_loop env post [] w2)"
  have run: "correct_batch_texts env (TextListInput (pre @ text # post)) w =
          (Inr ?rs, snd (batch_loop env post [] w2))"
    by (simp add: correct_batch_texts_split item)
  have len: "length (fst (batch_loop env pre [] w)) = length pre" by (rule batch_loop_length)
  have "length ?rs = length (pre @ text # post)" by (simp add: batch_loop_length)
  moreover have "?rs ! length pre = ?e" using len by (metis nth_append_length)
  moreover have "take (length pre) ?rs = fst (batch_loop env pre [] w)" using len by simp
  moreover have "drop (Suc (length pre)) ?rs = fst (batch_loop env post [] w2)" using len by simp
  ultimately show ?thesis using f run by blast
qed

theorem batch_failure_isolated_witness:
  "strip sentence \<noteq> [] \<and>
   (\<exists>rs w'. correct_batch_texts (simulated_upstream bad_then_good)
               (TextListInput ([[]] @ sentence # [sentence])) w0 = (Inr rs, w') \<and>
      length rs = 3 \<and>
      rs ! 1 = \<lparr>corrections = [],
            correct_sentence = str ''Error: '' @ str ''Bad response from correction service: ''
               @ str ''Ollama response was not valid JSON: '' @ str ''not json'',
            original_sentence = sentence\<rparr> \<and>
      drop 2 rs = [\<lparr>corrections = [\<lparr>wrong_word = str ''has'', correct_word = str ''have'',
                              reason_of_error = str ''agreement''\<rparr>],
            correct_sentence = str ''I have an apple.'',
            original_sentence = sentence\<rparr>] \<and>
      w' = \<lparr>chat_calls = 2, attempts = 2, wrapper_calls = 2\<rparr>)"
proof -
  have nonblank: "strip sentence \<noteq> []"
    by (simp add: strip_def isspace_def sentence_def str_def)
  have fails: "exception_wrapper (simulated_upstream bad_then_good) sentence 5
                 (snd (batch_loop (simulated_upstream bad_then_good) [[]] [] w0)) =
      (Inl (HTTPException 502 (str ''Bad response from correction service: ''
               @ str ''Ollama response was not valid JSON: '' @ str ''not json'')),
       \<lparr>chat_calls = 1, attempts = 1, wrapper_calls = 1\<rparr>)"
    by (simp add: simulation_defs)
  have rest: "batch_loop (simulated_upstream bad_then_good) [sentence] []
                \<lparr>chat_calls = 1, attempts = 1, wrapper_calls = 1\<rparr> =
      ([\<lparr>corrections = [\<lparr>wrong_word = str ''has'', correct_word = str ''have'',
                              reason_of_error = str ''agreement''\<rparr>],
            correct_sentence = str ''I have an apple.'',
            original_sentence = sentence\<rparr>],
       \<lparr>chat_calls = 2, attempts = 2, wrapper_calls = 2\<rparr>)"
    by (simp add: simulation_defs)
  from batch_failure_isolated [OF nonblank fails, of "[sentence]"] rest nonblank
  show ?thesis by (auto simp: numeral_2_eq_2)
qed

text \<open>
  Claim C6. A batch item made of whitespace only (the empty string included) yields the
  result with the raw item as \<open>original_sentence\<close>, no corrections and an empty
  \<open>correct_sentence\<close>, and leaves the world as it was: no call of \<^verbatim>\<open>chat\<close>, of
  \<^verbatim>\<open>get_corrections\<close> or of \<^verbatim>\<open>exception_wrapper\<close> is made for it, and the later items
  are processed from the world the earlier items left.
\<close>

theorem batch_blank_item:
  assumes "\<forall>c\<in>set text. isspace c"
  shows "batch_item env text w1 =
           (\<lparr>corrections = [], correct_sentence = [], original_sentence = text\<rparr>, w1) \<and>
         (\<exists>rs w'. correct_batch_texts env (TextListInput (pre @ text # post)) w = (Inr rs, w') \<and>
            rs ! length pre =
              \<lparr>corrections = [], correct_sentence = [], original_sentence = text\<rparr> \<and>
            drop (Suc (length pre)) rs =
              fst (batch_loop env post [] (snd (batch_loop env pre [] w))) \<and>
            w' = snd (batch_loop env post [] (snd (batch_loop env pre [] w))))"
proof -
  let ?b = "\<lparr>corrections = [], correct_sentence = [], original_sentence = text\<rparr>"
  have blank: "strip text = []" using assms by (simp add: strip_empty_iff)
  then have item: "batch_item env text u = (?b, u)" for u
    by (simp add: batch_item_def)
  let ?w1 = "snd (batch_loop env pre [] w)"
  let ?rs = "fst (batch_loop env pre [] w) @ ?b # fst (batch_loop env post [] ?w1)"
  have run: "correct_batch_texts env (TextListInput (pre @ text # post)) w =
          (Inr ?rs, snd (batch_loop env post [] ?w1))"
    by (simp add: correct_batch_texts_split item)
  have len: "length (fst (batch_loop env pre [] w)) = length pre" by (rule batch_loop_length)
  have "?rs ! length pre = ?b" using len by (metis nth_append_length)
  moreover have "drop (Suc (length pre)) ?rs = fst (batch_loop env post [] ?w1)"
    using len by simp
  ultimately show ?thesis using item run by blast
qed

theorem batch_blank_item_witness:
  "isspace 0x20 \<and> isspace 0x09 \<and>
   (\<exists>rs w'. correct_batch_texts (simulated_upstream (fails_then_succeeds 0))
               (TextListInput ([sentence] @ [0x20, 0x09] # [sentence])) w0 = (Inr rs, w') \<and>
      rs ! 1 = \<lparr>corrections = [], correct_sentence = [], original_sentence = [0x20, 0x09]\<rparr> \<and>
      w' = \<lparr>chat_calls = 2, attempts = 2, wrapper_calls = 2\<rparr>) \<and>
   batch_item (simulated_upstream (fails_then_succeeds 0)) [0x20, 0x09] w0 =
     (\<lparr>corrections = [], correct_sentence = [], original_sentence = [0x20, 0x09]\<rparr>, w0)"
proof -
  have ws: "\<forall>c\<in>set [0x20, 0x09]. isspace c" by (simp add: isspace_def)
  have pre: "batch_loop (simulated_upstream (fails_then_succeeds 0)) [sentence] [] w0 =
      ([\<lparr>corrections = [\<lparr>wrong_word = str ''has'', correct_word = str ''have'',
                              reason_of_error = str ''agreement''\<rparr>],
            correct_sentence = str ''I have an apple.'',
            original_sentence = sentence\<rparr>],
       \<lparr>chat_calls = 1, attempts = 1, wrapper_calls = 1\<rparr>)"
    by (simp add: simulation_defs)
  have post: "batch_loop (simulated_upstream (fails_then_succeeds 0)) [sentence] []
                \<lparr>chat_calls = 1, attempts = 1, wrapper_calls = 1\<rparr> =
      ([\<lparr>corrections = [\<lparr>wrong_word = str ''has'', correct_word = str ''have'',
                              reason_of_error = str ''agreement''\<rparr>],
            correct_sentence = str ''I have an apple.'',
            original_sentence = sentence\<rparr>],
       \<lparr>chat_calls = 2, attempts = 2, wrapper_calls = 2\<rparr>)"
    by (simp add: simulation_defs)
  from batch_blank_item [OF ws, of "simulated_upstream (fails_then_succeeds 0)" w0 "[sentence]"
         "[sentence]" w0] pre post ws
  show ?thesis by auto
qed

end
